theory Spec2Isabelle
  imports Main
begin

section \<open>Strings of the host language\<close>

text \<open>
  The plugin is TypeScript. Its strings are modelled as \<open>string\<close> (lists of 8-bit
  characters), which covers every code unit below 256; the addresses, ports, session names
  and file extensions the plugin handles are of that kind. The helpers below follow the
  ECMAScript definitions of the string methods the source calls.
\<close>

definition code :: "char \<Rightarrow> nat" where
  "code c = of_char c"

text \<open>White space and line terminators with a code unit below 256: TAB, LF, VT, FF, CR, SP, NBSP.\<close>

definition isWhiteSpace :: "char \<Rightarrow> bool" where
  "isWhiteSpace c = (code c \<in> {9, 10, 11, 12, 13, 32, 160})"

definition isDigit :: "char \<Rightarrow> bool" where
  "isDigit c = (48 \<le> code c \<and> code c \<le> 57)"

definition digitValue :: "char \<Rightarrow> nat" where
  "digitValue c = code c - 48"

definition isHexDigit :: "char \<Rightarrow> bool" where
  "isHexDigit c = (isDigit c \<or> (97 \<le> code c \<and> code c \<le> 102) \<or> (65 \<le> code c \<and> code c \<le> 70))"

definition hexValue :: "char \<Rightarrow> nat" where
  "hexValue c = (if isDigit c then code c - 48
                 else if 97 \<le> code c then code c - 87 else code c - 55)"

text \<open>\<open>s.trim()\<close>\<close>

definition trim :: "string \<Rightarrow> string" where
  "trim s = rev (dropWhile isWhiteSpace (rev (dropWhile isWhiteSpace s)))"

text \<open>\<open>s.startsWith(p)\<close>, \<open>s.endsWith(p)\<close>, \<open>s.includes(p)\<close>\<close>

definition startsWith :: "string \<Rightarrow> string \<Rightarrow> bool" where
  "startsWith p s = (take (length p) s = p)"

definition endsWith :: "string \<Rightarrow> string \<Rightarrow> bool" where
  "endsWith p s = (length p \<le> length s \<and> drop (length s - length p) s = p)"

fun str_includes :: "string \<Rightarrow> string \<Rightarrow> bool" where
  "str_includes p [] = (p = [])"
| "str_includes p (c # cs) = (startsWith p (c # cs) \<or> str_includes p cs)"

text \<open>\<open>s.lastIndexOf(c)\<close> for a single character: the greatest index holding it, or -1.\<close>

definition lastIndexOf :: "char \<Rightarrow> string \<Rightarrow> int" where
  "lastIndexOf c s =
     (if c \<in> set s then int (length s) - 1 - int (length (takeWhile (\<lambda>x. x \<noteq> c) (rev s)))
      else - 1)"

text \<open>\<open>s.substring(i)\<close> and \<open>s.substring(0, i)\<close> for an index \<open>i\<close> that is not negative.\<close>

definition substringFrom :: "string \<Rightarrow> int \<Rightarrow> string" where
  "substringFrom s i = drop (nat i) s"

definition substringTo :: "string \<Rightarrow> int \<Rightarrow> string" where
  "substringTo s i = take (nat i) s"

text \<open>The regular expression \<open>/^\d+$/\<close>: one or more decimal digits and nothing else.\<close>

definition allDigits :: "string \<Rightarrow> bool" where
  "allDigits s = (s \<noteq> [] \<and> list_all isDigit s)"

text \<open>
  \<open>parseInt(s)\<close> with no radix: leading white space is skipped, one sign is read, a prefix
  \<open>0x\<close> or \<open>0X\<close> selects base 16, then the longest run of digits is read; with no digit the
  result is NaN, which is \<open>None\<close> here. The value is the mathematical integer (the host
  rounds it to a double, which changes nothing below \<open>2^53\<close>).
\<close>

definition digitsValue :: "nat \<Rightarrow> (char \<Rightarrow> nat) \<Rightarrow> string \<Rightarrow> int" where
  "digitsValue radix val ds = int (foldl (\<lambda>acc c. acc * radix + val c) 0 ds)"

definition parseInt :: "string \<Rightarrow> int option" where
  "parseInt inputString =
     (let S = dropWhile isWhiteSpace inputString;
          sign = (if S \<noteq> [] \<and> hd S = CHR ''-'' then - 1 else 1 :: int);
          S1 = (if S \<noteq> [] \<and> (hd S = CHR ''+'' \<or> hd S = CHR ''-'') then tl S else S);
          hex = (startsWith ''0x'' S1 \<or> startsWith ''0X'' S1);
          S2 = (if hex then drop 2 S1 else S1);
          Z = (if hex then takeWhile isHexDigit S2 else takeWhile isDigit S2)
      in if Z = [] then None
         else Some (sign * (if hex then digitsValue 16 hexValue Z else digitsValue 10 digitValue Z)))"

text \<open>Truthiness of \<open>string | undefined\<close>: \<open>undefined\<close> and the empty string are falsy.\<close>

fun truthy :: "string option \<Rightarrow> bool" where
  "truthy None = False"
| "truthy (Some s) = (s \<noteq> [])"

section \<open>Data model\<close>

datatype host_mode = HostNvim | HostTmux

text \<open>\<open>EditInNeovimSettings\<close> (Settings.ts).\<close>

record settings =
  hostMode :: host_mode
  terminal :: string
  listenOn :: string
  openNeovimOnLoad :: bool
  supportedFileTypes :: "string list"
  pathToBinary :: string
  appname :: string
  tmuxSessionName :: string
  tmuxAttachOnStart :: bool
  tmuxKeepAliveOnQuit :: bool

text \<open>The editor binary as \<open>findNvim\<close> describes it: its path, its version, a discovery error.\<close>

record nvim_binary =
  path :: string
  nvimVersion :: "string option"
  error :: "string option"

datatype started = Headless | Terminal | Tmux | Unknown

text \<open>
  Where an attach attempt connects: a TCP stream to a host and port, or a socket (named
  pipe) path. The RPC handle of the session is identified by the target it is attached to.
\<close>

datatype target = TcpStream string int | SocketPath string

text \<open>
  The fields of class \<open>Neovim\<close>. The process handle is identified by its pid. The field
  \<open>instance\<close> of the source is \<open>instance'\<close>, since \<open>instance\<close> is reserved here; the
  \<open>adapter\<close> is part of the environment below.
\<close>

record neovim =
  instance' :: "target option"
  process :: "nat option"
  settings :: settings
  nvimBinary :: "nvim_binary option"
  termBinary :: "string option"
  tmuxBinary :: "string option"
  apiKey :: "string option"
  startedVia :: started

text \<open>\<open>TFile\<close>, as far as \<open>openFile\<close> reads it.\<close>

record tfile =
  extension :: string
  file_path :: string
  basename :: string

section \<open>Environment and effects\<close>

datatype spawn_outcome = SpawnThrew string | SpawnedNoPid | Spawned nat

datatype exec_error = ExecError (message: string) (errno: "string option")

datatype exec_outcome = ExecFileThrew string | ExecFileDone "exec_error option" string string

text \<open>
  What becomes of one attach attempt (the connection and the awaited \<open>eval("1")\<close>): it
  settles after some milliseconds, resolved (true) or rejected (false), or it never
  settles. The source sets no timeout on the awaited call.
\<close>

datatype attempt = Settles bool nat | NeverSettles

fun succeeds :: "attempt \<Rightarrow> bool" where
  "succeeds (Settles ok d) = ok"
| "succeeds NeverSettles = False"

fun settlesWithin :: "nat \<Rightarrow> attempt \<Rightarrow> bool" where
  "settlesWithin D (Settles ok d) = (d \<le> D)"
| "settlesWithin D NeverSettles = False"

text \<open>
  What the plugin reads from the outside world during one call. Each field stands for
  one external call of the source:
  \<^item> \<open>win32\<close>: \<open>process.platform === "win32"\<close>;
  \<^item> \<open>basePath\<close>, \<open>fullPath\<close>: \<open>adapter.getBasePath()\<close>, \<open>adapter.getFullPath(p)\<close>;
  \<^item> \<open>spawn exe args\<close>: \<open>child_process.spawn\<close>, which throws, returns a process without a
    pid, or returns a process with a pid;
  \<^item> \<open>execFileSync exe args\<close>: \<open>child_process.execFileSync\<close>, true when it returns and false
    when it throws;
  \<^item> \<open>execFile exe args\<close>: \<open>child_process.execFile\<close> and what its callback receives;
  \<^item> \<open>networkConnections\<close>: the \<open>localPort\<close> of each entry of
    \<open>systeminformation.networkConnections()\<close>;
  \<^item> \<open>existsSync\<close>: \<open>fs.existsSync\<close>;
  \<^item> \<open>connect tg t\<close>: one attach to \<open>tg\<close> followed by \<open>eval("1")\<close>, begun at clock time \<open>t\<close>
    (milliseconds): what becomes of the attempt;
  \<^item> \<open>now\<close>: \<open>Date.now()\<close> when the call begins;
  \<^item> \<open>buffers h\<close>: \<open>await instance.buffers\<close>, the buffer names or the message of the
    error it rejects with.
\<close>

record world =
  win32 :: bool
  basePath :: string
  fullPath :: "string \<Rightarrow> string"
  spawn :: "string \<Rightarrow> string list \<Rightarrow> spawn_outcome"
  execFileSync :: "string \<Rightarrow> string list \<Rightarrow> bool"
  execFile :: "string \<Rightarrow> string list \<Rightarrow> exec_outcome"
  networkConnections :: "string list"
  existsSync :: "string \<Rightarrow> bool"
  connect :: "target \<Rightarrow> int \<Rightarrow> attempt"
  now :: int
  buffers :: "target \<Rightarrow> string + string list"

text \<open>The notices the plugin shows (\<open>new Notice(...)\<close>), one constructor per message.\<close>

datatype notice =
    PotentialConfigIssues
  | UnableToGetBuffers string
  | InstanceAlreadyRunning
  | NoNvimBinary
  | FailedToCreateProcess
  | ServerStarted string
  | FailedToConnect string
  | SpawnError string
  | InstanceStartedAndConnected
  | ProcessRanIntoError
  | NoTerminalForTmuxAttach
  | FailedToOpenTerminalForTmux
  | TmuxUnsupportedOnWindows
  | TmuxNotFound
  | PortAlreadyInUse string
  | FailedToStartTmuxSession
  | RunningInTmuxSession string
  | SocketNotCreated string
  | CouldNotConnectTmux string
  | ExecutableNotFound string
  | CouldNotConnectServer string
  | FileNotFoundOnServer string
  | OpenErrorStderr string
  | OpenError string
  | FailedToRunCommand string
  | DisconnectedTmuxNotFound
  | KilledTmuxSession string
  | FailedToKillTmuxSession string
  | InstanceClosed

text \<open>
  What a call does to the outside world, in order: notices shown, processes spawned
  (executable, arguments and the variables laid over the host environment), commands run,
  the process handle killed, the RPC handle asked to quit. Console logging is left out.
  \<open>NeverReturns\<close> is no action: it ends the effects of a call that is left waiting for
  a promise that never settles, and so does not return.
\<close>

datatype effect =
    Notice notice
  | Spawn string "string list" "(string \<times> string) list"
  | ExecFileSync string "string list"
  | ExecFile string "string list"
  | Kill nat
  | Quit target
  | NeverReturns

section \<open>Attaching to the server (Neovim.ts, attachToServer and waitForServerReady)\<close>

datatype attach_plan = Connect target | InvalidListenPort

text \<open>
  The address decision of \<open>attachToServer\<close>: host and port when the last colon is after
  position 0 and the address neither starts with a slash nor holds two backslashes in a
  row (which is what the source literal with four backslashes denotes); then a port that
  \<open>parseInt\<close> does not read throws \<open>Invalid listen port\<close>. Every other address is a socket path.
\<close>

definition attachTarget :: "string \<Rightarrow> attach_plan" where
  "attachTarget listenAddr =
     (let colonIdx = lastIndexOf CHR '':'' listenAddr in
      if colonIdx > 0 \<and> \<not> startsWith ''/'' listenAddr
           \<and> \<not> str_includes [CHR 0x5C, CHR 0x5C] listenAddr
      then (let host = substringTo listenAddr colonIdx in
            case parseInt (substringFrom listenAddr (colonIdx + 1)) of
              None \<Rightarrow> InvalidListenPort
            | Some port \<Rightarrow> Connect (TcpStream host port))
      else Connect (SocketPath listenAddr))"

text \<open>
  One attempt, begun at clock time \<open>t\<close>. It returns true or false, with the session
  afterwards and the milliseconds it took, or it is left waiting: the handle has been
  assigned and the awaited call never settles. Every failure is caught: the handle is
  dropped and the result is false. An invalid port throws before anything is awaited.
\<close>

datatype attach_result = AttachReturned bool neovim nat | AttachPending neovim

definition attachToServer :: "world \<Rightarrow> int \<Rightarrow> neovim \<Rightarrow> attach_result" where
  "attachToServer w t s =
     (case attachTarget (listenOn (settings s)) of
        InvalidListenPort \<Rightarrow> AttachReturned False (s\<lparr>instance' := None\<rparr>) 0
      | Connect tg \<Rightarrow>
          (case connect w tg t of
             NeverSettles \<Rightarrow> AttachPending (s\<lparr>instance' := Some tg\<rparr>)
           | Settles ok d \<Rightarrow>
               if ok then AttachReturned True (s\<lparr>instance' := Some tg\<rparr>) d
               else AttachReturned False (s\<lparr>instance' := None\<rparr>) d))"

text \<open>
  The result of waiting: whether the call returned at all, what it returned, the session
  afterwards, the clock when it returned (or when the attempt that never settles began)
  and the attempts begun.
\<close>

record wait_result =
  returned :: bool
  ready :: bool
  session :: neovim
  finishedAt :: int
  attempts :: nat

text \<open>
  The polling loop of \<open>waitForServerReady\<close>. \<open>start\<close> is the first reading of the clock,
  \<open>t\<close> the current one and \<open>n\<close> the attempts made so far. The clock advances by what each
  attempt takes and by the 200 ms timer after a failed attempt. An attempt that never
  settles leaves the loop waiting for it.
\<close>

function waitLoop :: "world \<Rightarrow> int \<Rightarrow> int \<Rightarrow> int \<Rightarrow> nat \<Rightarrow> neovim \<Rightarrow> wait_result" where
  "waitLoop w start timeoutMs t n s =
     (if t - start < timeoutMs then
        (case attachToServer w t s of
           AttachPending s' \<Rightarrow>
             \<lparr>returned = False, ready = False, session = s', finishedAt = t, attempts = Suc n\<rparr>
         | AttachReturned ok s' d \<Rightarrow>
             if ok
             then \<lparr>returned = True, ready = True, session = s', finishedAt = t + int d,
                   attempts = Suc n\<rparr>
             else waitLoop w start timeoutMs (t + int d + 200) (Suc n) s')
      else \<lparr>returned = True, ready = False, session = s, finishedAt = t, attempts = n\<rparr>)"
  by pat_completeness auto
termination
  by (relation "measure (\<lambda>(w, start, timeoutMs, t, n, s). nat (start + timeoutMs - t))") auto

declare waitLoop.simps [simp del]

definition waitForServerReady :: "world \<Rightarrow> int \<Rightarrow> neovim \<Rightarrow> wait_result" where
  "waitForServerReady w timeoutMs s = waitLoop w (now w) timeoutMs (now w) 0 s"

section \<open>Closing (Neovim.ts, disconnect, close, onObsidianQuit)\<close>

definition disconnect :: "neovim \<Rightarrow> neovim" where
  "disconnect s = s\<lparr>instance' := None, process := None\<rparr>"

text \<open>\<open>(this.settings.tmuxSessionName || "edit-in-neovim").trim()\<close>\<close>

definition sessionName :: "neovim \<Rightarrow> string" where
  "sessionName s =
     trim (if tmuxSessionName (settings s) \<noteq> [] then tmuxSessionName (settings s)
           else ''edit-in-neovim'')"

text \<open>The value of a binary path that has been tested truthy.\<close>

definition strOf :: "string option \<Rightarrow> string" where
  "strOf b = (case b of Some p \<Rightarrow> p | None \<Rightarrow> [])"

definition close :: "world \<Rightarrow> neovim \<Rightarrow> neovim \<times> effect list" where
  "close w s =
     (if startedVia s = Tmux then
        (if \<not> truthy (tmuxBinary s) then (disconnect s, [Notice DisconnectedTmuxNotFound])
         else
           (let cmd = [''kill-session'', ''-t'', sessionName s] in
            if execFileSync w (strOf (tmuxBinary s)) cmd
            then (disconnect s,
                  [ExecFileSync (strOf (tmuxBinary s)) cmd, Notice (KilledTmuxSession (sessionName s))])
            else (disconnect s,
                  [ExecFileSync (strOf (tmuxBinary s)) cmd,
                   Notice (FailedToKillTmuxSession (sessionName s))])))
      else
        (s\<lparr>instance' := None, process := None\<rparr>,
         (case process s of Some p \<Rightarrow> [Kill p] | None \<Rightarrow> [])
         @ (case instance' s of Some h \<Rightarrow> [Quit h] | None \<Rightarrow> [])
         @ [Notice InstanceClosed]))"

definition onObsidianQuit :: "world \<Rightarrow> neovim \<Rightarrow> neovim \<times> effect list" where
  "onObsidianQuit w s =
     (if startedVia s = Tmux \<and> tmuxKeepAliveOnQuit (settings s) then (disconnect s, [])
      else close w s)"

section \<open>Launching (Neovim.ts, newInstance and the three spawn functions)\<close>

text \<open>
  \<open>this.nvimBinary?.path\<close>: the empty string stands for an undefined binary as well,
  which every reader of the path treats as it treats the empty path.
\<close>

definition nvimPath :: "neovim \<Rightarrow> string" where
  "nvimPath s = (case nvimBinary s of Some b \<Rightarrow> path b | None \<Rightarrow> [])"

definition extraEnvVars :: "neovim \<Rightarrow> (string \<times> string) list" where
  "extraEnvVars s =
     (if truthy (apiKey s) then [(''OBSIDIAN_REST_API_KEY'', strOf (apiKey s))] else [])
     @ (if appname (settings s) \<noteq> [] then [(''NVIM_APPNAME'', appname (settings s))] else [])"

definition spawnHeadless :: "world \<Rightarrow> neovim \<Rightarrow> (string \<times> string) list \<Rightarrow> neovim \<times> effect list" where
  "spawnHeadless w s extra =
     (let spawnArgs = [''--headless'', ''--listen'', listenOn (settings s)];
          s1 = s\<lparr>startedVia := Headless\<rparr>;
          e1 = [Spawn (nvimPath s) spawnArgs extra]
      in case spawn w (nvimPath s) spawnArgs of
           SpawnThrew msg \<Rightarrow>
             (s1\<lparr>process := None, instance' := None\<rparr>, e1 @ [Notice (SpawnError msg)])
         | SpawnedNoPid \<Rightarrow> (s1\<lparr>process := None\<rparr>, e1 @ [Notice FailedToCreateProcess])
         | Spawned pid \<Rightarrow>
             (let r = waitForServerReady w 7000 (s1\<lparr>process := Some pid\<rparr>) in
              if \<not> returned r then (session r, e1 @ [NeverReturns])
              else if ready r
              then (session r, e1 @ [Notice (ServerStarted (listenOn (settings s)))])
              else (fst (close w (session r)),
                    e1 @ [Notice (FailedToConnect (listenOn (settings s)))]
                    @ snd (close w (session r)))))"

text \<open>\<open>s.toLowerCase()\<close> on code units below 256, and \<open>s.split(c).pop()\<close>.\<close>

definition toLowerCase :: "string \<Rightarrow> string" where
  "toLowerCase s =
     map (\<lambda>c. if (65 \<le> code c \<and> code c \<le> 90) \<or> (192 \<le> code c \<and> code c \<le> 222 \<and> code c \<noteq> 215)
               then char_of (code c + 32) else c) s"

definition lastSegment :: "char \<Rightarrow> string \<Rightarrow> string" where
  "lastSegment c s = rev (takeWhile (\<lambda>x. x \<noteq> c) (rev s))"

text \<open>
  \<open>configureProcessSpawnArgs\<close> (utils), as far as the arguments go: \<open>windows\<close> is the
  platform test, \<open>port\<close> the listen address.
\<close>

definition configureProcessSpawnArgs :: "bool \<Rightarrow> string \<Rightarrow> string \<Rightarrow> string \<Rightarrow> string list" where
  "configureProcessSpawnArgs windows terminalName nvimBin port =
     (if \<not> windows then [''-e'', nvimBin, ''--listen'', port]
      else if terminalName = ''alacritty.exe'' \<or> terminalName = ''wezterm.exe''
              \<or> terminalName = ''kitty.exe''
      then [''-e'', nvimBin, ''--listen'', port]
      else if terminalName = ''wt.exe''
      then [''new-tab'', ''--title'', ''Neovim'', nvimBin, ''--listen'', port]
      else if terminalName = ''powershell.exe'' \<or> terminalName = ''pwsh.exe''
      then [''-ExecutionPolicy'', ''Bypass'', ''-NoProfile'', ''-NoExit'', ''-Command'',
            ''Start-Process -FilePath '' @ [CHR 0x27] @ nvimBin @ [CHR 0x27]
            @ '' -ArgumentList '' @ [CHR 0x27] @ ''--listen '' @ port @ [CHR 0x27]
            @ '' -WindowStyle Normal'']
      else if terminalName = ''cmd.exe''
      then [''/c'', ''start'', [CHR 0x22] @ ''Neovim'' @ [CHR 0x22],
            [CHR 0x22] @ nvimBin @ [CHR 0x22], ''--listen'', port]
      else [''-e'', nvimBin, ''--listen'', port])"

definition spawnWithTerminal :: "world \<Rightarrow> neovim \<Rightarrow> (string \<times> string) list \<Rightarrow> neovim \<times> effect list" where
  "spawnWithTerminal w s extra =
     (let terminalName = toLowerCase (lastSegment (CHR 0x5C) (strOf (termBinary s)));
          spawnArgs = configureProcessSpawnArgs (win32 w) terminalName (nvimPath s)
                        (listenOn (settings s));
          s1 = s\<lparr>startedVia := Terminal\<rparr>;
          e1 = [Spawn (strOf (termBinary s)) spawnArgs extra]
      in case spawn w (strOf (termBinary s)) spawnArgs of
           SpawnThrew msg \<Rightarrow>
             (s1\<lparr>process := None, instance' := None\<rparr>, e1 @ [Notice (SpawnError msg)])
         | SpawnedNoPid \<Rightarrow> (s1\<lparr>process := None\<rparr>, e1 @ [Notice FailedToCreateProcess])
         | Spawned pid \<Rightarrow>
             (let r = waitForServerReady w 7000 (s1\<lparr>process := Some pid\<rparr>) in
              if \<not> returned r then (session r, e1 @ [NeverReturns])
              else if ready r then (session r, e1 @ [Notice InstanceStartedAndConnected])
              else (session r, e1 @ [Notice (FailedToConnect (listenOn (settings s)))])))"

text \<open>The handlers of \<open>registerProcessEvents\<close>, run when the spawned process reports an event.\<close>

datatype process_event = ProcError | ProcClose | ProcDisconnect | ProcExit

definition processEvent :: "process_event \<Rightarrow> neovim \<Rightarrow> neovim \<times> effect list" where
  "processEvent ev s =
     (s\<lparr>process := None, instance' := None\<rparr>,
      if ev = ProcError then [Notice ProcessRanIntoError] else [])"

text \<open>
  \<open>isPortInUse\<close> (utils): some connection has exactly this string as its local port.
  The query of the connections is taken to resolve with a list; the source of
  \<open>isPortInUse\<close> has no failing branch of its own.
\<close>

definition isPortInUse :: "world \<Rightarrow> string \<Rightarrow> bool" where
  "isPortInUse w port = (port \<in> set (networkConnections w))"

definition tmuxHasSession :: "world \<Rightarrow> neovim \<Rightarrow> string \<Rightarrow> bool \<times> effect list" where
  "tmuxHasSession w s name =
     (if \<not> truthy (tmuxBinary s) then (False, [])
      else (execFileSync w (strOf (tmuxBinary s)) [''has-session'', ''-t'', name],
            [ExecFileSync (strOf (tmuxBinary s)) [''has-session'', ''-t'', name]]))"

definition spawnTerminalToAttachTmux :: "world \<Rightarrow> neovim \<Rightarrow> string \<Rightarrow> effect list" where
  "spawnTerminalToAttachTmux w s name =
     (if \<not> truthy (termBinary s) then [Notice NoTerminalForTmuxAttach]
      else
        (let args = [''-e'', (case tmuxBinary s of Some t \<Rightarrow> t | None \<Rightarrow> ''tmux''),
                     ''attach'', ''-t'', name]
         in Spawn (strOf (termBinary s)) args []
            # (case spawn w (strOf (termBinary s)) args of
                 SpawnThrew msg \<Rightarrow> [Notice FailedToOpenTerminalForTmux]
               | SpawnedNoPid \<Rightarrow> []
               | Spawned pid \<Rightarrow> [])))"

text \<open>The local constants \<open>portStr\<close>, \<open>isTcpListen\<close> and \<open>port\<close> of \<open>spawnWithTmux\<close>.\<close>

definition portStr :: "string \<Rightarrow> string" where
  "portStr listenAddr =
     (if lastIndexOf CHR '':'' listenAddr > 0
      then substringFrom listenAddr (lastIndexOf CHR '':'' listenAddr + 1) else [])"

definition isTcpListen :: "string \<Rightarrow> bool" where
  "isTcpListen listenAddr =
     (lastIndexOf CHR '':'' listenAddr > 0 \<and> allDigits (portStr listenAddr)
      \<and> \<not> startsWith ''/'' listenAddr)"

definition listenPort :: "string \<Rightarrow> string option" where
  "listenPort listenAddr = (if isTcpListen listenAddr then Some (portStr listenAddr) else None)"

text \<open>The condition \<open>port && await isPortInUse(port)\<close>.\<close>

definition portTaken :: "world \<Rightarrow> string \<Rightarrow> bool" where
  "portTaken w listenAddr =
     (truthy (listenPort listenAddr) \<and> isPortInUse w (strOf (listenPort listenAddr)))"

text \<open>The arguments of the \<open>new-session\<close> command.\<close>

definition newSessionArgs :: "world \<Rightarrow> neovim \<Rightarrow> (string \<times> string) list \<Rightarrow> string list" where
  "newSessionArgs w s extra =
     [''new-session'', ''-d'', ''-s'', sessionName s, ''-c'', basePath w,
      (if existsSync w ''/usr/bin/env'' then ''/usr/bin/env'' else ''env'')]
     @ map (\<lambda>(k, v). k @ ''='' @ v) extra
     @ [nvimPath s, ''--listen'', listenOn (settings s)]"

text \<open>
  The end of \<open>spawnWithTmux\<close>, from the optional terminal that attaches to the session
  to the notice that reports whether the server answered.
\<close>

definition tmuxAwaitServer :: "world \<Rightarrow> neovim \<Rightarrow> neovim \<times> effect list" where
  "tmuxAwaitServer w s =
     (let e = (if tmuxAttachOnStart (settings s) then spawnTerminalToAttachTmux w s (sessionName s)
               else []);
          r = waitForServerReady w 7000 s
      in if \<not> returned r then (session r, e @ [NeverReturns])
         else if ready r then (session r, e @ [Notice (RunningInTmuxSession (sessionName s))])
         else if \<not> isTcpListen (listenOn (settings s)) \<and> \<not> existsSync w (listenOn (settings s))
         then (session r, e @ [Notice (SocketNotCreated (listenOn (settings s)))])
         else (session r, e @ [Notice (CouldNotConnectTmux (listenOn (settings s)))]))"

definition spawnWithTmux :: "world \<Rightarrow> neovim \<Rightarrow> (string \<times> string) list \<Rightarrow> neovim \<times> effect list" where
  "spawnWithTmux w s extra =
     (if win32 w then (s, [Notice TmuxUnsupportedOnWindows])
      else if \<not> truthy (tmuxBinary s) then (s, [Notice TmuxNotFound])
      else
        (let s1 = s\<lparr>startedVia := Tmux\<rparr>;
             sessionExists = fst (tmuxHasSession w s1 (sessionName s1));
             e1 = snd (tmuxHasSession w s1 (sessionName s1))
         in if portTaken w (listenOn (settings s1)) \<and> \<not> sessionExists
            then (s1, e1 @ [Notice (PortAlreadyInUse (listenOn (settings s1)))])
            else if \<not> sessionExists
            then (if execFileSync w (strOf (tmuxBinary s1)) (newSessionArgs w s1 extra)
                  then (fst (tmuxAwaitServer w s1),
                        e1 @ [ExecFileSync (strOf (tmuxBinary s1)) (newSessionArgs w s1 extra)]
                        @ snd (tmuxAwaitServer w s1))
                  else (s1, e1 @ [ExecFileSync (strOf (tmuxBinary s1)) (newSessionArgs w s1 extra),
                                  Notice FailedToStartTmuxSession]))
            else (fst (tmuxAwaitServer w s1), e1 @ snd (tmuxAwaitServer w s1))))"

definition newInstance :: "world \<Rightarrow> neovim \<Rightarrow> neovim \<times> effect list" where
  "newInstance w s =
     (if hostMode (settings s) = HostNvim \<and> process s \<noteq> None
      then (s, [Notice InstanceAlreadyRunning])
      else if nvimBinary s = None \<or> nvimPath s = [] then (s, [Notice NoNvimBinary])
      else if hostMode (settings s) = HostTmux then spawnWithTmux w s (extraEnvVars s)
      else if \<not> truthy (termBinary s) then spawnHeadless w s (extraEnvVars s)
      else spawnWithTerminal w s (extraEnvVars s))"

section \<open>Opening files and listing buffers (Neovim.ts, openFile and getBuffers)\<close>

definition isSupported :: "neovim \<Rightarrow> tfile \<Rightarrow> bool" where
  "isSupported s f =
     (extension f \<in> set (supportedFileTypes (settings s))
      \<or> ((extension f = ''md'' \<and> endsWith ''.excalidraw.md'' (file_path f))
          \<and> ''excalidraw'' \<in> set (supportedFileTypes (settings s))))"

text \<open>The message chosen in the callback of \<open>execFile\<close> when the command failed.\<close>

definition openErrorNotice :: "neovim \<Rightarrow> string \<Rightarrow> tfile \<Rightarrow> exec_error \<Rightarrow> string \<Rightarrow> notice" where
  "openErrorNotice s absolutePath f err stderr =
     (if errno err = Some ''ENOENT'' then ExecutableNotFound (nvimPath s)
      else if stderr \<noteq> [] \<and> (str_includes ''ECONNREFUSED'' stderr
                             \<or> str_includes ''Connection refused'' stderr)
      then CouldNotConnectServer (listenOn (settings s))
      else if stderr \<noteq> [] \<and> str_includes ''No such file or directory'' stderr
              \<and> str_includes absolutePath stderr
      then FileNotFoundOnServer (basename f)
      else if stderr \<noteq> [] then OpenErrorStderr (takeWhile (\<lambda>c. c \<noteq> CHR 0x0A) stderr)
      else OpenError (message err))"

definition openFile :: "world \<Rightarrow> neovim \<Rightarrow> tfile option \<Rightarrow> neovim \<times> effect list" where
  "openFile w s file =
     (case file of
        None \<Rightarrow> (s, [])
      | Some f \<Rightarrow>
          if nvimPath s = [] then (s, [])
          else if \<not> isSupported s f then (s, [])
          else
            (let absolutePath = fullPath w (file_path f);
                 args = [''--server'', listenOn (settings s), ''--remote'', absolutePath]
             in (s, ExecFile (nvimPath s) args
                    # (case execFile w (nvimPath s) args of
                         ExecFileThrew msg \<Rightarrow> [Notice (FailedToRunCommand msg)]
                       | ExecFileDone None out err \<Rightarrow> []
                       | ExecFileDone (Some e) out err \<Rightarrow>
                           [Notice (openErrorNotice s absolutePath f e err)]))))"

text \<open>
  The result of \<open>getBuffers\<close> is a sum so that an error it raised would be a value,
  \<open>Inl\<close>; the source catches the only failure of its body.
\<close>

definition getBuffers :: "world \<Rightarrow> neovim \<Rightarrow> (string + string list) \<times> effect list" where
  "getBuffers w s =
     (case instance' s of
        None \<Rightarrow> (Inr [], [])
      | Some h \<Rightarrow>
          (case buffers w h of
             Inr bs \<Rightarrow> (Inr bs, [])
           | Inl msg \<Rightarrow> (Inr [], [Notice (UnableToGetBuffers msg)])))"

section \<open>Construction and the session as a state machine\<close>

text \<open>
  The constructor, given what \<open>searchForBinary\<close> finds for a name and the matches of
  \<open>findNvim\<close>, best first.
\<close>

definition constructor ::
  "(string \<Rightarrow> string option) \<Rightarrow> nvim_binary list \<Rightarrow> settings \<Rightarrow> string option
   \<Rightarrow> neovim \<times> effect list" where
  "constructor searchForBinary matches st key =
     (let s = \<lparr>instance' = None, process = None, settings = st, nvimBinary = None,
               termBinary = (if terminal st \<noteq> [] then searchForBinary (terminal st) else None),
               tmuxBinary = searchForBinary ''tmux'', apiKey = key, startedVia = Unknown\<rparr>
      in if pathToBinary st \<noteq> []
         then (s\<lparr>nvimBinary := Some \<lparr>path = pathToBinary st, nvimVersion = Some ''manual_path'',
                                      error = None\<rparr>\<rparr>, [])
         else
           (case matches of
              m # ms \<Rightarrow> (s\<lparr>nvimBinary := Some m\<rparr>, [])
            | [] \<Rightarrow>
                (let b = \<lparr>path = [], nvimVersion = None,
                          error = Some ''Neovim binary not found, and no manual path specified''\<rparr>
                 in (s\<lparr>nvimBinary := Some b\<rparr>,
                     if \<not> truthy (termBinary s) \<or> \<not> truthy (nvimVersion b) \<or> error b \<noteq> None
                     then [Notice PotentialConfigIssues] else []))))"

text \<open>
  What can happen to a session: the public methods, an event of the spawned process, and
  a change of the settings object, which the settings tab mutates in place (Settings.ts).
  Each call is taken as one step, run to its end before the next event (a call that
  never returns leaves the session as it was when it began to wait); the environment of
  a step is what that call reads.
\<close>

datatype event =
    NewInstance world
  | OpenFile world "tfile option"
  | GetBuffers world
  | Disconnect
  | OnObsidianQuit world
  | Close world
  | ProcessEvent process_event
  | SettingsChanged settings

fun step :: "event \<Rightarrow> neovim \<Rightarrow> neovim" where
  "step (NewInstance w) s = fst (newInstance w s)"
| "step (OpenFile w f) s = fst (openFile w s f)"
| "step (GetBuffers w) s = s"
| "step Disconnect s = disconnect s"
| "step (OnObsidianQuit w) s = fst (onObsidianQuit w s)"
| "step (Close w) s = fst (close w s)"
| "step (ProcessEvent ev) s = fst (processEvent ev s)"
| "step (SettingsChanged st) s = s\<lparr>settings := st\<rparr>"

fun run :: "event list \<Rightarrow> neovim \<Rightarrow> neovim" where
  "run [] s = s"
| "run (e # es) s = run es (step e s)"

section \<open>Concrete sessions and environments\<close>

text \<open>\<open>DEFAULT_SETTINGS\<close> (Settings.ts), with no \<open>TERMINAL\<close> variable in the host environment.\<close>

definition defaultSettings :: settings where
  "defaultSettings =
     \<lparr>hostMode = HostNvim, terminal = [], listenOn = ''127.0.0.1:2006'', openNeovimOnLoad = True,
      supportedFileTypes = [''txt'', ''md'', ''css'', ''js'', ''ts'', ''tsx'', ''jsx'', ''json''],
      pathToBinary = [], appname = [], tmuxSessionName = ''obsidian'',
      tmuxAttachOnStart = False, tmuxKeepAliveOnQuit = False\<rparr>"

definition tmuxSettings :: settings where
  "tmuxSettings = defaultSettings\<lparr>hostMode := HostTmux\<rparr>"

text \<open>A machine with tmux and an editor binary installed, and no terminal configured.\<close>

definition findBinary :: "string \<Rightarrow> string option" where
  "findBinary name = (if name = ''tmux'' then Some ''/usr/bin/tmux'' else None)"

definition foundNvim :: "nvim_binary list" where
  "foundNvim = [\<lparr>path = ''/usr/bin/nvim'', nvimVersion = Some ''0.10.0'', error = None\<rparr>]"

definition session0 :: neovim where
  "session0 = fst (constructor findBinary foundNvim defaultSettings None)"

text \<open>
  An environment where everything succeeds at once, one where nothing listens and an
  attempt is refused at once, one where nothing listens and an attempt fails after
  2500 ms, and one where nothing listens and an attempt never settles.
\<close>

definition readyWorld :: world where
  "readyWorld =
     \<lparr>win32 = False, basePath = ''/vault'', fullPath = (\<lambda>p. ''/vault/'' @ p),
      spawn = (\<lambda>exe args. Spawned 4242), execFileSync = (\<lambda>exe args. True),
      execFile = (\<lambda>exe args. ExecFileDone None [] []), networkConnections = [''2006''],
      existsSync = (\<lambda>p. True), connect = (\<lambda>tg t. Settles True 0), now = 0,
      buffers = (\<lambda>h. Inr [''note.md''])\<rparr>"

definition quietWorld :: world where
  "quietWorld =
     readyWorld\<lparr>execFileSync := (\<lambda>exe args. False), networkConnections := [],
                existsSync := (\<lambda>p. False), connect := (\<lambda>tg t. Settles False 0),
                execFile := (\<lambda>exe args. ExecFileDone (Some (ExecError ''Command failed'' None)) []
                                          ''ECONNREFUSED''),
                buffers := (\<lambda>h. Inl ''connection closed'')\<rparr>"

definition slowWorld :: world where
  "slowWorld = quietWorld\<lparr>connect := (\<lambda>tg t. Settles False 2500)\<rparr>"

definition stuckWorld :: world where
  "stuckWorld = quietWorld\<lparr>connect := (\<lambda>tg t. NeverSettles)\<rparr>"


text \<open>
  The default session switched to tmux hosting, the session after a headless launch that
  connected, and a session launched under tmux with the keep-alive flag set.
\<close>

definition tmuxSession0 :: neovim where
  "tmuxSession0 = session0\<lparr>settings := tmuxSettings\<rparr>"

definition runningSession :: neovim where
  "runningSession = fst (newInstance readyWorld session0)"

definition keepAliveSession :: neovim where
  "keepAliveSession =
     fst (newInstance readyWorld (session0\<lparr>settings := tmuxSettings\<lparr>tmuxKeepAliveOnQuit := True\<rparr>\<rparr>))"

text \<open>
  A session whose listen address has a port that is no number, and two runs of the state
  machine: one that switches the host mode to tmux while a headless process is held, and
  one that stays in tmux mode.
\<close>

definition badPortSession :: neovim where
  "badPortSession = session0\<lparr>settings := defaultSettings\<lparr>listenOn := ''localhost:abc''\<rparr>\<rparr>"

text \<open>
  A tmux session whose listen address ends in a space, and an environment where a
  foreign editor listens on TCP port 2006 and answers, no tmux session exists and every
  tmux command but the session query succeeds. A session launched under tmux without
  the keep-alive flag.
\<close>

definition spacedSession :: neovim where
  "spacedSession = session0\<lparr>settings := tmuxSettings\<lparr>listenOn := ''127.0.0.1:2006 ''\<rparr>\<rparr>"

definition foreignWorld :: world where
  "foreignWorld =
     readyWorld\<lparr>execFileSync := (\<lambda>exe args. take 1 args \<noteq> [''has-session'']),
                networkConnections := [''2006''], existsSync := (\<lambda>p. False),
                connect := (\<lambda>tg t. if tg = TcpStream ''127.0.0.1'' 2006 then Settles True 0
                                    else Settles False 0)\<rparr>"

definition tmuxRunningSession :: neovim where
  "tmuxRunningSession = fst (newInstance readyWorld tmuxSession0)"

definition modeSwitchRun :: "event list" where
  "modeSwitchRun = [NewInstance readyWorld, SettingsChanged tmuxSettings, NewInstance readyWorld]"

definition tmuxRun :: "event list" where
  "tmuxRun = [NewInstance readyWorld, OnObsidianQuit readyWorld, NewInstance quietWorld]"

section \<open>Notions of the specification\<close>

text \<open>
  The shape the specification gives to a host-and-port address: it contains a colon
  after position 0, does not start with a slash and contains no two backslashes in a row.
  \<open>afterLastColon\<close> is the substring after its last colon.
\<close>

definition hostPortShape :: "string \<Rightarrow> bool" where
  "hostPortShape a =
     (CHR '':'' \<in> set (tl a) \<and> \<not> (a \<noteq> [] \<and> hd a = CHR ''/'')
      \<and> (CHR 0x5C, CHR 0x5C) \<notin> set (zip a (tl a)))"

definition afterLastColon :: "string \<Rightarrow> string" where
  "afterLastColon a = rev (takeWhile (\<lambda>c. c \<noteq> CHR '':'') (rev a))"

text \<open>
  The launch strategies of the specification and its selection rule, in priority order:
  tmux when the host mode is tmux, else headless when no terminal binary was resolved,
  else terminal. \<open>runStrategy\<close> names the spawn function of the source that carries a
  strategy out.
\<close>

datatype strategy = HeadlessStrategy | TerminalStrategy | TmuxStrategy

definition selectStrategy :: "host_mode \<Rightarrow> bool \<Rightarrow> strategy" where
  "selectStrategy mode terminalResolved =
     (if mode = HostTmux then TmuxStrategy
      else if \<not> terminalResolved then HeadlessStrategy
      else TerminalStrategy)"

fun runStrategy ::
  "strategy \<Rightarrow> world \<Rightarrow> neovim \<Rightarrow> (string \<times> string) list \<Rightarrow> neovim \<times> effect list" where
  "runStrategy HeadlessStrategy w s extra = spawnHeadless w s extra"
| "runStrategy TerminalStrategy w s extra = spawnWithTerminal w s extra"
| "runStrategy TmuxStrategy w s extra = spawnWithTmux w s extra"

text \<open>An event that leaves the host mode at \<open>m\<close>: every event but a change of settings to another mode.\<close>

fun keepsHostMode :: "host_mode \<Rightarrow> event \<Rightarrow> bool" where
  "keepsHostMode m (SettingsChanged st) = (hostMode st = m)"
| "keepsHostMode m e = True"


text \<open>
  The invariant of a session whose host mode stays at \<open>m\<close>: in tmux mode no process handle
  is held, and in nvim mode the session was not started through tmux.
\<close>

definition modeInvariant :: "host_mode \<Rightarrow> neovim \<Rightarrow> bool" where
  "modeInvariant m s =
     (hostMode (settings s) = m \<and> (m = HostTmux \<longrightarrow> process s = None)
      \<and> (m = HostNvim \<longrightarrow> startedVia s \<noteq> Tmux))"

section \<open>Lemmas on strings\<close>

lemma takeWhile_shorter: "x \<in> set ys \<Longrightarrow> \<not> P x \<Longrightarrow> length (takeWhile P ys) < length ys"
  by (induction ys) auto

lemma lastIndexOf_pos: "(lastIndexOf c a > 0) = (c \<in> set (tl a))"
proof (cases a)
  case Nil
  then show ?thesis by (simp add: lastIndexOf_def)
next
  case (Cons x xs)
  show ?thesis
  proof (cases "c \<in> set xs")
    case True
    then have "takeWhile (\<lambda>y. y \<noteq> c) (rev xs @ [x]) = takeWhile (\<lambda>y. y \<noteq> c) (rev xs)"
      by (simp add: takeWhile_append1)
    moreover have "length (takeWhile (\<lambda>y. y \<noteq> c) (rev xs)) < length (rev xs)"
      using True takeWhile_shorter[of c "rev xs" "\<lambda>y. y \<noteq> c"] by simp
    ultimately show ?thesis using True Cons by (simp add: lastIndexOf_def)
  next
    case False
    show ?thesis
    proof (cases "x = c")
      case True
      have "takeWhile (\<lambda>y. y \<noteq> c) (rev xs @ [c]) = rev xs @ takeWhile (\<lambda>y. y \<noteq> c) [c]"
        using False by (intro takeWhile_append2) auto
      then have "length (takeWhile (\<lambda>y. y \<noteq> c) (rev (c # xs))) = length xs"
        by simp
      then have "lastIndexOf c (c # xs) = 0"
        by (simp add: lastIndexOf_def)
      with False True Cons show ?thesis by simp
    next
      case neq: False
      with False Cons show ?thesis by (simp add: lastIndexOf_def)
    qed
  qed
qed

lemma startsWith_single: "startsWith [c] a = (a \<noteq> [] \<and> hd a = c)"
  by (cases a) (auto simp: startsWith_def)

lemma str_includes_pair: "str_includes [x, y] a = ((x, y) \<in> set (zip a (tl a)))"
proof (induction a)
  case Nil
  then show ?case by simp
next
  case (Cons c cs)
  then show ?case by (cases cs) (auto simp: startsWith_def)
qed

lemma substring_after_last:
  assumes "c \<in> set a"
  shows "substringFrom a (lastIndexOf c a + 1) = lastSegment c a"
proof -
  let ?k = "length (takeWhile (\<lambda>x. x \<noteq> c) (rev a))"
  have k: "?k \<le> length a" using length_takeWhile_le[of "\<lambda>x. x \<noteq> c" "rev a"] by simp
  have "rev (takeWhile (\<lambda>x. x \<noteq> c) (rev a)) = rev (take ?k (rev a))"
    using takeWhile_eq_take[of "\<lambda>x. x \<noteq> c" "rev a"] by simp
  also have "\<dots> = drop (length a - ?k) a" by (simp add: rev_take)
  finally have "lastSegment c a = drop (length a - ?k) a" by (simp add: lastSegment_def)
  moreover have "nat (lastIndexOf c a + 1) = length a - ?k"
    using assms k by (simp add: lastIndexOf_def)
  ultimately show ?thesis by (simp add: substringFrom_def)
qed

lemma attachTarget_shape:
  "attachTarget a =
     (if hostPortShape a
      then (case parseInt (afterLastColon a) of
              None \<Rightarrow> InvalidListenPort
            | Some port \<Rightarrow> Connect (TcpStream (substringTo a (lastIndexOf CHR '':'' a)) port))
      else Connect (SocketPath a))"
proof (cases "hostPortShape a")
  case True
  then have "CHR '':'' \<in> set a" by (cases a) (auto simp: hostPortShape_def)
  then have "substringFrom a (lastIndexOf CHR '':'' a + 1) = afterLastColon a"
    by (simp add: substring_after_last lastSegment_def afterLastColon_def)
  with True show ?thesis
    by (simp add: attachTarget_def hostPortShape_def lastIndexOf_pos startsWith_single
        str_includes_pair Let_def)
next
  case False
  then show ?thesis
    by (auto simp: attachTarget_def hostPortShape_def lastIndexOf_pos startsWith_single
        str_includes_pair Let_def)
qed

section \<open>The polling loop\<close>

lemma attachToServer_cases:
  obtains (pending) i where "attachToServer w t s = AttachPending (s\<lparr>instance' := i\<rparr>)"
  | (returned) ok i d where "attachToServer w t s = AttachReturned ok (s\<lparr>instance' := i\<rparr>) d"
proof (cases "attachTarget (listenOn (settings s))")
  case InvalidListenPort
  then have "attachToServer w t s = AttachReturned False (s\<lparr>instance' := None\<rparr>) 0"
    by (simp add: attachToServer_def)
  then show thesis by (rule returned)
next
  case (Connect tg)
  show thesis
  proof (cases "connect w tg t")
    case NeverSettles
    with Connect have "attachToServer w t s = AttachPending (s\<lparr>instance' := Some tg\<rparr>)"
      by (simp add: attachToServer_def)
    then show thesis by (rule pending)
  next
    case (Settles ok d)
    with Connect have "attachToServer w t s
        = AttachReturned ok (s\<lparr>instance' := (if ok then Some tg else None)\<rparr>) d"
      by (simp add: attachToServer_def)
    then show thesis by (rule returned)
  qed
qed

lemma waitLoop_done:
  "\<not> t - start < T \<Longrightarrow>
     waitLoop w start T t n s =
       \<lparr>returned = True, ready = False, session = s, finishedAt = t, attempts = n\<rparr>"
  by (subst waitLoop.simps) simp

lemma waitLoop_pending:
  "t - start < T \<Longrightarrow> attachToServer w t s = AttachPending s' \<Longrightarrow>
     waitLoop w start T t n s =
       \<lparr>returned = False, ready = False, session = s', finishedAt = t, attempts = Suc n\<rparr>"
  by (subst waitLoop.simps) simp

lemma waitLoop_ok:
  "t - start < T \<Longrightarrow> attachToServer w t s = AttachReturned True s' d \<Longrightarrow>
     waitLoop w start T t n s =
       \<lparr>returned = True, ready = True, session = s', finishedAt = t + int d, attempts = Suc n\<rparr>"
  by (subst waitLoop.simps) simp

lemma waitLoop_retry:
  "t - start < T \<Longrightarrow> attachToServer w t s = AttachReturned False s' d \<Longrightarrow>
     waitLoop w start T t n s = waitLoop w start T (t + int d + 200) (Suc n) s'"
  by (subst waitLoop.simps) simp

lemma waitLoop_session:
  "\<exists>i. session (waitLoop w start T t n s) = s\<lparr>instance' := i\<rparr>"
proof (induction w start T t n s rule: waitLoop.induct)
  case (1 w start T t n s)
  show ?case
  proof (cases "t - start < T")
    case False
    then have "session (waitLoop w start T t n s) = s\<lparr>instance' := instance' s\<rparr>"
      by (simp add: waitLoop_done)
    then show ?thesis by blast
  next
    case True
    show ?thesis
    proof (cases w t s rule: attachToServer_cases)
      case (pending i)
      with True have "session (waitLoop w start T t n s) = s\<lparr>instance' := i\<rparr>"
        by (simp add: waitLoop_pending)
      then show ?thesis by blast
    next
      case (returned ok i d)
      show ?thesis
      proof (cases ok)
        case yes: True
        with True returned have "session (waitLoop w start T t n s) = s\<lparr>instance' := i\<rparr>"
          by (simp add: waitLoop_ok)
        then show ?thesis by blast
      next
        case no: False
        from "1.IH"[OF True returned no] obtain j where
          "session (waitLoop w start T (t + int d + 200) (Suc n) (s\<lparr>instance' := i\<rparr>))
             = s\<lparr>instance' := i, instance' := j\<rparr>"
          by blast
        with True returned no have "session (waitLoop w start T t n s) = s\<lparr>instance' := j\<rparr>"
          by (simp add: waitLoop_retry)
        then show ?thesis by blast
      qed
    qed
  qed
qed

lemma waitForServerReady_session:
  "\<exists>i. session (waitForServerReady w T s) = s\<lparr>instance' := i\<rparr>"
  unfolding waitForServerReady_def by (rule waitLoop_session)

lemma succeeds_settles: "succeeds a \<Longrightarrow> \<exists>d. a = Settles True d"
  by (cases a) auto

lemma waitForServerReady_first:
  assumes "attachTarget (listenOn (settings s)) = Connect tg"
    and "succeeds (connect w tg (now w))" and "0 < T"
  shows "returned (waitForServerReady w T s) \<and> ready (waitForServerReady w T s)
         \<and> session (waitForServerReady w T s) = s\<lparr>instance' := Some tg\<rparr>
         \<and> attempts (waitForServerReady w T s) = 1"
proof -
  obtain d where "connect w tg (now w) = Settles True d"
    using assms(2) succeeds_settles by blast
  with assms(1) have "attachToServer w (now w) s = AttachReturned True (s\<lparr>instance' := Some tg\<rparr>) d"
    by (simp add: attachToServer_def)
  with assms(3) show ?thesis
    by (simp add: waitForServerReady_def waitLoop_ok)
qed

text \<open>While every attempt settles within \<open>D\<close> ms, the loop returns, and within bounds.\<close>

lemma attachToServer_settles:
  assumes "\<forall>tg t. settlesWithin D (connect w tg t)"
  obtains ok i d where "attachToServer w t s = AttachReturned ok (s\<lparr>instance' := i\<rparr>) d" and "d \<le> D"
proof (cases "attachTarget (listenOn (settings s))")
  case InvalidListenPort
  then have "attachToServer w t s = AttachReturned False (s\<lparr>instance' := None\<rparr>) 0"
    by (simp add: attachToServer_def)
  then show thesis using that by blast
next
  case (Connect tg)
  from assms have "settlesWithin D (connect w tg t)" by blast
  then obtain ok d where c: "connect w tg t = Settles ok d" and d: "d \<le> D"
    by (cases "connect w tg t") auto
  with Connect have "attachToServer w t s
      = AttachReturned ok (s\<lparr>instance' := (if ok then Some tg else None)\<rparr>) d"
    by (simp add: attachToServer_def)
  then show thesis using that d by blast
qed

lemma waitLoop_settling:
  "\<forall>tg t. settlesWithin D (connect w tg t) \<Longrightarrow> t < start + T + 200 + int D \<Longrightarrow>
     returned (waitLoop w start T t n s)
     \<and> finishedAt (waitLoop w start T t n s) < start + T + 200 + int D
     \<and> attempts (waitLoop w start T t n s) \<le> n + nat ((start + T - t + 199) div 200)
     \<and> (\<not> ready (waitLoop w start T t n s) \<longrightarrow> T \<le> finishedAt (waitLoop w start T t n s) - start)"
proof (induction w start T t n s rule: waitLoop.induct)
  case (1 w start T t n s)
  show ?case
  proof (cases "t - start < T")
    case False
    with "1.prems"(2) show ?thesis by (simp add: waitLoop_done)
  next
    case True
    then have pos: "1 \<le> (start + T - t + 199) div 200" by linarith
    from "1.prems"(1) obtain ok i d
      where a: "attachToServer w t s = AttachReturned ok (s\<lparr>instance' := i\<rparr>) d" and d: "d \<le> D"
      by (rule attachToServer_settles)
    show ?thesis
    proof (cases ok)
      case yes: True
      with True a d pos show ?thesis by (simp add: waitLoop_ok)
    next
      case no: False
      from True d have nxt: "t + int d + 200 < start + T + 200 + int D" by linarith
      let ?r = "waitLoop w start T (t + int d + 200) (Suc n) (s\<lparr>instance' := i\<rparr>)"
      have eq: "waitLoop w start T t n s = ?r"
        using True a no by (simp add: waitLoop_retry)
      note ih = "1.IH"[OF True a no "1.prems"(1) nxt]
      have "(start + T - (t + int d + 200) + 199) div 200 \<le> (start + T - t + 199) div 200 - 1"
        by linarith
      with pos have "Suc n + nat ((start + T - (t + int d + 200) + 199) div 200)
          \<le> n + nat ((start + T - t + 199) div 200)"
        by linarith
      with ih have "attempts ?r \<le> n + nat ((start + T - t + 199) div 200)"
        by linarith
      with ih show ?thesis unfolding eq by blast
    qed
  qed
qed

lemma waitForServerReady_settling:
  assumes "0 \<le> timeoutMs" and "\<forall>tg t. settlesWithin D (connect w tg t)"
  shows "returned (waitForServerReady w timeoutMs s)
       \<and> finishedAt (waitForServerReady w timeoutMs s) - now w < timeoutMs + 200 + int D
       \<and> attempts (waitForServerReady w timeoutMs s) \<le> nat ((timeoutMs + 199) div 200)
       \<and> (\<not> ready (waitForServerReady w timeoutMs s) \<longrightarrow>
            timeoutMs \<le> finishedAt (waitForServerReady w timeoutMs s) - now w)"
proof -
  have "now w < now w + timeoutMs + 200 + int D" using assms(1) by simp
  from waitLoop_settling[OF assms(2) this, of 0 s] show ?thesis
    unfolding waitForServerReady_def by simp
qed

section \<open>What the operations leave unchanged\<close>

lemma close_frame:
  "fst (close w s) = s\<lparr>instance' := None, process := None\<rparr>"
  by (simp add: close_def disconnect_def Let_def)

lemma spawnHeadless_frame:
  "\<exists>i p. fst (spawnHeadless w s extra) = s\<lparr>instance' := i, process := p, startedVia := Headless\<rparr>"
proof (cases "spawn w (nvimPath s) [''--headless'', ''--listen'', listenOn (settings s)]")
  case (SpawnThrew msg)
  then have "fst (spawnHeadless w s extra) = s\<lparr>instance' := None, process := None, startedVia := Headless\<rparr>"
    by (simp add: spawnHeadless_def)
  then show ?thesis by blast
next
  case SpawnedNoPid
  then have "fst (spawnHeadless w s extra) = s\<lparr>instance' := instance' s, process := None, startedVia := Headless\<rparr>"
    by (simp add: spawnHeadless_def)
  then show ?thesis by blast
next
  case (Spawned pid)
  let ?r = "waitForServerReady w 7000 (s\<lparr>startedVia := Headless, process := Some pid\<rparr>)"
  obtain i where i: "session ?r = s\<lparr>startedVia := Headless, process := Some pid, instance' := i\<rparr>"
    using waitForServerReady_session by blast
  show ?thesis
  proof (cases "returned ?r \<and> \<not> ready ?r")
    case False
    with Spawned i have "fst (spawnHeadless w s extra) = s\<lparr>instance' := i, process := Some pid, startedVia := Headless\<rparr>"
      by (auto simp: spawnHeadless_def Let_def)
    then show ?thesis by blast
  next
    case True
    with Spawned i have "fst (spawnHeadless w s extra) = s\<lparr>instance' := None, process := None, startedVia := Headless\<rparr>"
      by (simp add: spawnHeadless_def Let_def close_frame)
    then show ?thesis by blast
  qed
qed

lemma spawnWithTerminal_frame:
  "\<exists>i p. fst (spawnWithTerminal w s extra) = s\<lparr>instance' := i, process := p, startedVia := Terminal\<rparr>"
proof -
  let ?tb = "strOf (termBinary s)"
  let ?args = "configureProcessSpawnArgs (win32 w)
      (toLowerCase (lastSegment (CHR 0x5C) ?tb)) (nvimPath s) (listenOn (settings s))"
  show ?thesis
  proof (cases "spawn w ?tb ?args")
    case (SpawnThrew msg)
    then have "fst (spawnWithTerminal w s extra) = s\<lparr>instance' := None, process := None, startedVia := Terminal\<rparr>"
      by (simp add: spawnWithTerminal_def)
    then show ?thesis by blast
  next
    case SpawnedNoPid
    then have "fst (spawnWithTerminal w s extra) = s\<lparr>instance' := instance' s, process := None, startedVia := Terminal\<rparr>"
      by (simp add: spawnWithTerminal_def)
    then show ?thesis by blast
  next
    case (Spawned pid)
    obtain i where i: "session (waitForServerReady w 7000 (s\<lparr>startedVia := Terminal, process := Some pid\<rparr>))
        = s\<lparr>startedVia := Terminal, process := Some pid, instance' := i\<rparr>"
      using waitForServerReady_session by blast
    with Spawned have "fst (spawnWithTerminal w s extra) = s\<lparr>instance' := i, process := Some pid, startedVia := Terminal\<rparr>"
      by (simp add: spawnWithTerminal_def Let_def)
    then show ?thesis by blast
  qed
qed

lemma tmuxAwaitServer_frame:
  "\<exists>i. fst (tmuxAwaitServer w s) = s\<lparr>instance' := i\<rparr>"
proof -
  obtain i where "session (waitForServerReady w 7000 s) = s\<lparr>instance' := i\<rparr>"
    using waitForServerReady_session by blast
  then have "fst (tmuxAwaitServer w s) = s\<lparr>instance' := i\<rparr>"
    by (simp add: tmuxAwaitServer_def Let_def)
  then show ?thesis by blast
qed

lemma spawnWithTmux_frame:
  "\<exists>i v. fst (spawnWithTmux w s extra) = s\<lparr>instance' := i, startedVia := v\<rparr>
      \<and> (v = Tmux \<or> v = startedVia s)"
proof -
  obtain i where i: "fst (tmuxAwaitServer w (s\<lparr>startedVia := Tmux\<rparr>)) = s\<lparr>startedVia := Tmux, instance' := i\<rparr>"
    using tmuxAwaitServer_frame by blast
  have "fst (spawnWithTmux w s extra) = s\<lparr>instance' := instance' s, startedVia := startedVia s\<rparr>
     \<or> fst (spawnWithTmux w s extra) = s\<lparr>instance' := instance' s, startedVia := Tmux\<rparr>
     \<or> fst (spawnWithTmux w s extra) = s\<lparr>instance' := i, startedVia := Tmux\<rparr>"
    using i by (simp add: spawnWithTmux_def Let_def)
  then show ?thesis by blast
qed

lemma spawnHeadless_startedVia: "startedVia (fst (spawnHeadless w s extra)) = Headless"
  using spawnHeadless_frame[of w s extra] by auto

lemma spawnWithTerminal_startedVia: "startedVia (fst (spawnWithTerminal w s extra)) = Terminal"
  using spawnWithTerminal_frame[of w s extra] by auto

lemma spawnWithTmux_startedVia:
  "\<not> win32 w \<Longrightarrow> truthy (tmuxBinary s) \<Longrightarrow> startedVia (fst (spawnWithTmux w s extra)) = Tmux"
  using tmuxAwaitServer_frame[of w "s\<lparr>startedVia := Tmux\<rparr>"]
  by (auto simp: spawnWithTmux_def Let_def)

section \<open>The session under a fixed host mode\<close>

lemma openFile_state: "fst (openFile w s f) = s"
  by (simp add: openFile_def Let_def split: option.splits)

lemma newInstance_inv:
  assumes "modeInvariant m s"
  shows "modeInvariant m (fst (newInstance w s))"
proof -
  obtain i p where h: "fst (spawnHeadless w s (extraEnvVars s))
      = s\<lparr>instance' := i, process := p, startedVia := Headless\<rparr>"
    using spawnHeadless_frame by blast
  obtain j q where t: "fst (spawnWithTerminal w s (extraEnvVars s))
      = s\<lparr>instance' := j, process := q, startedVia := Terminal\<rparr>"
    using spawnWithTerminal_frame by blast
  obtain k v where x: "fst (spawnWithTmux w s (extraEnvVars s)) = s\<lparr>instance' := k, startedVia := v\<rparr>"
    using spawnWithTmux_frame by blast
  show ?thesis
    using assms h t x by (cases m) (auto simp: newInstance_def modeInvariant_def)
qed

lemma step_inv:
  assumes "keepsHostMode m e" and "modeInvariant m s"
  shows "modeInvariant m (step e s)"
proof (cases e)
  case (NewInstance w)
  then show ?thesis using assms(2) by (simp add: newInstance_inv)
next
  case (OpenFile w f)
  then show ?thesis using assms(2) by (simp add: openFile_state)
next
  case (GetBuffers w)
  then show ?thesis using assms(2) by simp
next
  case Disconnect
  then show ?thesis using assms(2) by (simp add: disconnect_def modeInvariant_def)
next
  case (OnObsidianQuit w)
  then show ?thesis using assms(2)
    by (simp add: onObsidianQuit_def disconnect_def close_frame modeInvariant_def)
next
  case (Close w)
  then show ?thesis using assms(2) by (simp add: close_frame modeInvariant_def)
next
  case (ProcessEvent ev)
  then show ?thesis using assms(2) by (simp add: processEvent_def modeInvariant_def)
next
  case (SettingsChanged st)
  then show ?thesis using assms by (simp add: modeInvariant_def)
qed

lemma run_inv:
  "list_all (keepsHostMode m) evs \<Longrightarrow> modeInvariant m s \<Longrightarrow> modeInvariant m (run evs s)"
  by (induction evs arbitrary: s) (simp_all add: step_inv)

lemma constructor_inv: "modeInvariant (hostMode st) (fst (constructor sfb ms st key))"
  by (simp add: constructor_def modeInvariant_def Let_def split: list.splits)

section \<open>The open command\<close>






section \<open>Claims\<close>

text \<open>
  C1, as amended. After \<open>close\<close> both the process handle and the RPC handle are empty and
  \<open>startedVia\<close> is what it was: neither \<open>close\<close> nor \<open>disconnect\<close> assigns it. A launch
  from that state is not refused as already running, and it attaches (and, in nvim host
  mode, holds the new process) whenever the editor binary is known, the listen address
  has a target, tmux is there if the host mode needs it, and the environment lets the
  spawn, the tmux commands and the first attach attempt succeed.
\<close>

theorem close_then_launch:
  "instance' (fst (close w s)) = None \<and> process (fst (close w s)) = None
   \<and> startedVia (fst (close w s)) = startedVia s
   \<and> newInstance w' (fst (close w s)) \<noteq> (fst (close w s), [Notice InstanceAlreadyRunning])
   \<and> (nvimBinary s \<noteq> None \<and> nvimPath s \<noteq> []
      \<and> attachTarget (listenOn (settings s)) = Connect tg
      \<and> (hostMode (settings s) = HostTmux \<longrightarrow> truthy (tmuxBinary s))
      \<and> \<not> win32 w' \<and> spawn w' = (\<lambda>exe args. Spawned pid)
      \<and> execFileSync w' = (\<lambda>exe args. True) \<and> succeeds (connect w' tg (now w'))
      \<longrightarrow> instance' (fst (newInstance w' (fst (close w s)))) = Some tg
          \<and> (hostMode (settings s) = HostNvim \<longrightarrow>
                process (fst (newInstance w' (fst (close w s)))) = Some pid))"
proof -
  let ?c = "s\<lparr>instance' := None, process := None\<rparr>"
  have c: "fst (close w s) = ?c" by (rule close_frame)
  have "snd (spawnHeadless w' ?c extra) \<noteq> [Notice InstanceAlreadyRunning]" for extra
    by (simp add: spawnHeadless_def Let_def split: spawn_outcome.splits)
  moreover have "snd (spawnWithTerminal w' ?c extra) \<noteq> [Notice InstanceAlreadyRunning]" for extra
    by (simp add: spawnWithTerminal_def Let_def split: spawn_outcome.splits)
  moreover have "snd (spawnWithTmux w' ?c extra) \<noteq> [Notice InstanceAlreadyRunning]" for extra
    by (simp add: spawnWithTmux_def tmuxHasSession_def Let_def)
  ultimately have "snd (newInstance w' ?c) \<noteq> [Notice InstanceAlreadyRunning]"
    by (simp add: newInstance_def)
  then have notref: "newInstance w' ?c \<noteq> (?c, [Notice InstanceAlreadyRunning])"
    by auto
  have launch: "instance' (fst (newInstance w' ?c)) = Some tg
          \<and> (hostMode (settings s) = HostNvim \<longrightarrow> process (fst (newInstance w' ?c)) = Some pid)"
    if h: "nvimBinary s \<noteq> None" "nvimPath s \<noteq> []"
      "attachTarget (listenOn (settings s)) = Connect tg"
      "hostMode (settings s) = HostTmux \<longrightarrow> truthy (tmuxBinary s)"
      "\<not> win32 w'" "spawn w' = (\<lambda>exe args. Spawned pid)"
      "execFileSync w' = (\<lambda>exe args. True)" "succeeds (connect w' tg (now w'))"
  proof -
    have wait: "returned (waitForServerReady w' 7000 x) \<and> ready (waitForServerReady w' 7000 x)
        \<and> session (waitForServerReady w' 7000 x) = x\<lparr>instance' := Some tg\<rparr>"
      if "settings x = settings s" for x
      using waitForServerReady_first[of x tg w' 7000] h(3,8) that by simp
    show ?thesis
    proof (cases "hostMode (settings s)")
      case HostNvim
      then show ?thesis
        using h wait
        by (cases "truthy (termBinary s)")
           (auto simp: newInstance_def nvimPath_def spawnHeadless_def spawnWithTerminal_def Let_def)
    next
      case HostTmux
      then show ?thesis
        using h wait
        by (auto simp: newInstance_def nvimPath_def spawnWithTmux_def tmuxAwaitServer_def
            tmuxHasSession_def Let_def)
    qed
  qed
  from c notref launch show ?thesis by simp
qed

theorem close_then_launch_witness:
  "instance' (fst (close quietWorld runningSession)) = None
   \<and> process (fst (close quietWorld runningSession)) = None
   \<and> startedVia (fst (close quietWorld runningSession)) = Headless
   \<and> instance' (fst (newInstance readyWorld (fst (close quietWorld runningSession))))
        = Some (TcpStream ''127.0.0.1'' 2006)
   \<and> process (fst (newInstance readyWorld (fst (close quietWorld runningSession)))) = Some 4242"
proof -
  have h: "nvimBinary runningSession \<noteq> None" "nvimPath runningSession \<noteq> []"
    "attachTarget (listenOn (settings runningSession)) = Connect (TcpStream ''127.0.0.1'' 2006)"
    "hostMode (settings runningSession) = HostNvim" "startedVia runningSession = Headless"
    by code_simp+
  have w: "\<not> win32 readyWorld" "spawn readyWorld = (\<lambda>exe args. Spawned 4242)"
    "execFileSync readyWorld = (\<lambda>exe args. True)"
    "succeeds (connect readyWorld (TcpStream ''127.0.0.1'' 2006) (now readyWorld))"
    by (simp_all add: readyWorld_def)
  from close_then_launch[of quietWorld runningSession readyWorld "TcpStream ''127.0.0.1'' 2006" 4242]
    h w
  show ?thesis by simp
qed

text \<open>
  The claim as stated fails: the session left by a headless launch is closed and
  \<open>startedVia\<close> is still \<open>headless\<close>, not \<open>unknown\<close>.
\<close>

theorem close_keeps_startedVia_counterexample:
  "startedVia runningSession = Headless
   \<and> startedVia (fst (close quietWorld runningSession)) = Headless
   \<and> startedVia (fst (close quietWorld runningSession)) \<noteq> Unknown"
  by code_simp




text \<open>
  C3, as amended. No tmux launch assigns the process handle: \<open>spawnWithTmux\<close> returns the
  handle it was given. In every state reached from the constructor by events that never
  switch the host mode, the process handle is not set while \<open>startedVia = tmux\<close>.
\<close>

theorem tmux_launch_keeps_process_handle:
  "process (fst (spawnWithTmux w s extra)) = process s
   \<and> (list_all (keepsHostMode (hostMode st)) evs \<longrightarrow>
        \<not> (process (run evs (fst (constructor sfb ms st key))) \<noteq> None
           \<and> startedVia (run evs (fst (constructor sfb ms st key))) = Tmux))"
proof -
  obtain k v where "fst (spawnWithTmux w s extra) = s\<lparr>instance' := k, startedVia := v\<rparr>"
    using spawnWithTmux_frame by blast
  then have a: "process (fst (spawnWithTmux w s extra)) = process s" by simp
  have b: "list_all (keepsHostMode (hostMode st)) evs \<longrightarrow>
        \<not> (process (run evs (fst (constructor sfb ms st key))) \<noteq> None
           \<and> startedVia (run evs (fst (constructor sfb ms st key))) = Tmux)"
  proof
    assume "list_all (keepsHostMode (hostMode st)) evs"
    then have "modeInvariant (hostMode st) (run evs (fst (constructor sfb ms st key)))"
      by (rule run_inv) (rule constructor_inv)
    then show "\<not> (process (run evs (fst (constructor sfb ms st key))) \<noteq> None
           \<and> startedVia (run evs (fst (constructor sfb ms st key))) = Tmux)"
      by (cases "hostMode st") (auto simp: modeInvariant_def)
  qed
  from a b show ?thesis by blast
qed

theorem tmux_launch_keeps_process_handle_witness:
  "list_all (keepsHostMode (hostMode tmuxSettings)) tmuxRun
   \<and> startedVia (run tmuxRun (fst (constructor findBinary foundNvim tmuxSettings None))) = Tmux
   \<and> process (run tmuxRun (fst (constructor findBinary foundNvim tmuxSettings None))) = None"
proof -
  have h: "list_all (keepsHostMode (hostMode tmuxSettings)) tmuxRun" by code_simp
  have v: "startedVia (run tmuxRun (fst (constructor findBinary foundNvim tmuxSettings None))) = Tmux"
    by code_simp
  from tmux_launch_keeps_process_handle[of readyWorld session0 "[]" tmuxSettings tmuxRun
      findBinary foundNvim None] h v
  show ?thesis by blast
qed

text \<open>
  The claim as stated fails: after a headless launch the settings tab sets the host
  mode to tmux, the launch is then not refused (the refusal is for nvim host mode only),
  and the tmux launch sets \<open>startedVia = tmux\<close> while the headless process handle is held.
\<close>

theorem mode_switch_counterexample:
  "process (run modeSwitchRun session0) = Some 4242 \<and> startedVia (run modeSwitchRun session0) = Tmux"
  by code_simp

text \<open>
  C4, as amended. The attacher takes the address as host and port, and opens a TCP
  connection, exactly when it has the host-and-port shape and the substring after its
  last colon parses as an integer. An address of that shape whose port does not parse is
  not treated as a socket path: the attempt fails with an invalid-port error and nothing
  is connected. Exactly the addresses without the shape are taken whole as a socket
  path. \<open>127.0.0.1:2006\<close> is TCP to host \<open>127.0.0.1\<close>, port 2006, and \<open>/tmp/nvim.sock\<close> is a
  socket path.
\<close>

theorem attachTarget_parses_address:
  "((\<exists>h p. attachTarget a = Connect (TcpStream h p)) \<longleftrightarrow>
       hostPortShape a \<and> parseInt (afterLastColon a) \<noteq> None)
   \<and> (attachTarget a = InvalidListenPort \<longleftrightarrow>
       hostPortShape a \<and> parseInt (afterLastColon a) = None)
   \<and> (attachTarget a = Connect (SocketPath a) \<longleftrightarrow> \<not> hostPortShape a)
   \<and> (attachTarget (listenOn (settings s)) = InvalidListenPort \<longrightarrow>
        attachToServer w t s = AttachReturned False (s\<lparr>instance' := None\<rparr>) 0)
   \<and> attachTarget ''127.0.0.1:2006'' = Connect (TcpStream ''127.0.0.1'' 2006)
   \<and> attachTarget ''/tmp/nvim.sock'' = Connect (SocketPath ''/tmp/nvim.sock'')"
proof -
  have tcp: "(\<exists>h p. attachTarget a = Connect (TcpStream h p)) \<longleftrightarrow>
       hostPortShape a \<and> parseInt (afterLastColon a) \<noteq> None"
    by (auto simp: attachTarget_shape split: option.splits)
  have bad: "attachTarget a = InvalidListenPort \<longleftrightarrow>
       hostPortShape a \<and> parseInt (afterLastColon a) = None"
    by (auto simp: attachTarget_shape split: option.splits)
  have sock: "attachTarget a = Connect (SocketPath a) \<longleftrightarrow> \<not> hostPortShape a"
    by (auto simp: attachTarget_shape split: option.splits)
  have att: "attachTarget (listenOn (settings s)) = InvalidListenPort \<longrightarrow>
        attachToServer w t s = AttachReturned False (s\<lparr>instance' := None\<rparr>) 0"
    by (simp add: attachToServer_def)
  have ex1: "attachTarget ''127.0.0.1:2006'' = Connect (TcpStream ''127.0.0.1'' 2006)"
    by code_simp
  have ex2: "attachTarget ''/tmp/nvim.sock'' = Connect (SocketPath ''/tmp/nvim.sock'')"
    by code_simp
  show ?thesis
    by (intro conjI) (rule tcp bad sock att ex1 ex2)+
qed

theorem attachTarget_parses_address_witness:
  "attachTarget (listenOn (settings badPortSession)) = InvalidListenPort
   \<and> attachToServer readyWorld 0 badPortSession
        = AttachReturned False (badPortSession\<lparr>instance' := None\<rparr>) 0
   \<and> hostPortShape ''localhost:abc''"
proof -
  have h: "attachTarget (listenOn (settings badPortSession)) = InvalidListenPort" by code_simp
  have a: "listenOn (settings badPortSession) = ''localhost:abc''" by code_simp
  from attachTarget_parses_address[of "''localhost:abc''" badPortSession readyWorld 0] h a
  show ?thesis by simp
qed

text \<open>
  The claim as stated fails: \<open>localhost:abc\<close> has the shape and a port that is no
  integer, and it is not attached as a socket path; the attempt fails even where every
  connection would succeed.
\<close>

theorem attachTarget_invalid_port_counterexample:
  "hostPortShape ''localhost:abc'' \<and> parseInt (afterLastColon ''localhost:abc'') = None
   \<and> attachTarget ''localhost:abc'' = InvalidListenPort
   \<and> attachTarget ''localhost:abc'' \<noteq> Connect (SocketPath ''localhost:abc'')
   \<and> attachToServer readyWorld 0 badPortSession = AttachReturned False badPortSession 0"
  by code_simp

text \<open>
  C5. The claim holds of what the launch is written to do and the code misses it. The
  comment at the check says that for a TCP listen address the launch must not succeed by
  connecting to an existing server that tmux does not host. The check reads the address
  with a test of its own (digits only after the last colon, compared as a string with
  the bound ports), stricter than the attacher's. For the listen address
  \<open>127.0.0.1:2006\<close> followed by a space, the attacher connects to TCP port 2006, a
  foreign editor is bound to that port and no session of the name exists: the launch is
  not refused, creates the session and attaches to the foreign editor. For the same
  address without the space, in the same environment, it is refused.
\<close>

theorem spawnWithTmux_misses_port_conflict:
  "attachTarget (listenOn (settings spacedSession)) = Connect (TcpStream ''127.0.0.1'' 2006)
   \<and> networkConnections foreignWorld = [''2006'']
   \<and> \<not> fst (tmuxHasSession foreignWorld spacedSession (sessionName spacedSession))
   \<and> snd (newInstance foreignWorld spacedSession)
       = [ExecFileSync ''/usr/bin/tmux'' [''has-session'', ''-t'', ''obsidian''],
          ExecFileSync ''/usr/bin/tmux''
            [''new-session'', ''-d'', ''-s'', ''obsidian'', ''-c'', ''/vault'', ''env'',
             ''/usr/bin/nvim'', ''--listen'', ''127.0.0.1:2006 ''],
          Notice (RunningInTmuxSession ''obsidian'')]
   \<and> instance' (fst (newInstance foreignWorld spacedSession))
       = Some (TcpStream ''127.0.0.1'' 2006)
   \<and> snd (newInstance foreignWorld tmuxSession0)
       = [ExecFileSync ''/usr/bin/tmux'' [''has-session'', ''-t'', ''obsidian''],
          Notice (PortAlreadyInUse ''127.0.0.1:2006'')]"
  by code_simp

text \<open>
  C6. Once the launch entry point has passed its two refusals (a live process in nvim
  host mode, no editor binary), it runs the spawn function of the strategy the
  specification selects: tmux whenever the host mode is tmux, whatever the terminal
  binary; otherwise headless when no terminal binary was resolved and terminal when
  one was. The strategy shows in \<open>startedVia\<close> afterwards.
\<close>

theorem newInstance_selects_strategy:
  assumes "\<not> (hostMode (settings s) = HostNvim \<and> process s \<noteq> None)"
    and "nvimBinary s \<noteq> None" and "nvimPath s \<noteq> []"
  shows "newInstance w s =
           runStrategy (selectStrategy (hostMode (settings s)) (truthy (termBinary s))) w s
             (extraEnvVars s)
         \<and> selectStrategy HostTmux (truthy (termBinary s)) = TmuxStrategy
         \<and> selectStrategy HostNvim False = HeadlessStrategy
         \<and> selectStrategy HostNvim True = TerminalStrategy
         \<and> (hostMode (settings s) = HostNvim \<longrightarrow>
              startedVia (fst (newInstance w s))
                = (if truthy (termBinary s) then Terminal else Headless))
         \<and> (hostMode (settings s) = HostTmux \<and> \<not> win32 w \<and> truthy (tmuxBinary s) \<longrightarrow>
              startedVia (fst (newInstance w s)) = Tmux)"
proof -
  have run: "newInstance w s =
           runStrategy (selectStrategy (hostMode (settings s)) (truthy (termBinary s))) w s
             (extraEnvVars s)"
    using assms by (cases "hostMode (settings s)") (auto simp: newInstance_def selectStrategy_def)
  have nvim: "hostMode (settings s) = HostNvim \<longrightarrow>
              startedVia (fst (newInstance w s))
                = (if truthy (termBinary s) then Terminal else Headless)"
    by (simp add: run selectStrategy_def spawnHeadless_startedVia spawnWithTerminal_startedVia)
  have tmux: "hostMode (settings s) = HostTmux \<and> \<not> win32 w \<and> truthy (tmuxBinary s) \<longrightarrow>
              startedVia (fst (newInstance w s)) = Tmux"
    by (simp add: run selectStrategy_def spawnWithTmux_startedVia)
  from run nvim tmux show ?thesis by (simp add: selectStrategy_def)
qed

theorem newInstance_selects_strategy_witness:
  "newInstance readyWorld tmuxSession0
     = spawnWithTmux readyWorld tmuxSession0 (extraEnvVars tmuxSession0)
   \<and> startedVia (fst (newInstance readyWorld tmuxSession0)) = Tmux"
proof -
  have h1: "\<not> (hostMode (settings tmuxSession0) = HostNvim \<and> process tmuxSession0 \<noteq> None)"
    by code_simp
  have h2: "nvimBinary tmuxSession0 \<noteq> None" by code_simp
  have h3: "nvimPath tmuxSession0 \<noteq> []" by code_simp
  have m: "hostMode (settings tmuxSession0) = HostTmux" by code_simp
  have w: "\<not> win32 readyWorld" by code_simp
  have b: "truthy (tmuxBinary tmuxSession0)" by code_simp
  note th = newInstance_selects_strategy[of tmuxSession0 readyWorld, OF h1 h2 h3]
  from th have "newInstance readyWorld tmuxSession0
     = spawnWithTmux readyWorld tmuxSession0 (extraEnvVars tmuxSession0)"
    by (simp add: m selectStrategy_def)
  moreover from th m w b have "startedVia (fst (newInstance readyWorld tmuxSession0)) = Tmux"
    by blast
  ultimately show ?thesis by blast
qed

text \<open>
  C7. In nvim host mode (the headless and terminal strategies), a launch while a process
  handle is held shows the already-running notice and returns the session unchanged, so
  neither the process handle nor the RPC handle is altered, and nothing is spawned.
\<close>

theorem newInstance_already_running:
  assumes "hostMode (settings s) = HostNvim" and "process s = Some p"
  shows "newInstance w s = (s, [Notice InstanceAlreadyRunning])"
  using assms by (simp add: newInstance_def)

theorem newInstance_already_running_witness:
  "hostMode (settings runningSession) = HostNvim \<and> process runningSession = Some 4242
   \<and> instance' runningSession = Some (TcpStream ''127.0.0.1'' 2006)
   \<and> newInstance quietWorld runningSession = (runningSession, [Notice InstanceAlreadyRunning])"
proof -
  have h1: "hostMode (settings runningSession) = HostNvim" by code_simp
  have h2: "process runningSession = Some 4242" by code_simp
  have h3: "instance' runningSession = Some (TcpStream ''127.0.0.1'' 2006)" by code_simp
  from newInstance_already_running[OF h1 h2, of quietWorld] h1 h2 h3 show ?thesis by blast
qed

text \<open>
  C8. The claim holds of what the loop is written to do (its comment reads: poll attach
  until it succeeds or timeout) and the code misses it. The timeout is read only
  between attempts, and an attempt awaits the evaluation call with no timeout of its
  own. Where nothing listens and the attempt never settles, the call with the timeout of
  7000 ms that every launch uses never returns, and neither does the launch. Where each
  attempt fails after 2500 ms it returns false only after 8100 ms, later than 7000 ms
  plus one interval of 200 ms.
\<close>

theorem waitForServerReady_never_returns:
  "\<not> returned (waitForServerReady stuckWorld 7000 session0)
   \<and> attempts (waitForServerReady stuckWorld 7000 session0) = 1
   \<and> snd (newInstance stuckWorld session0)
       = [Spawn ''/usr/bin/nvim'' [''--headless'', ''--listen'', ''127.0.0.1:2006''] [],
          NeverReturns]
   \<and> returned (waitForServerReady slowWorld 7000 session0)
   \<and> \<not> ready (waitForServerReady slowWorld 7000 session0)
   \<and> attempts (waitForServerReady slowWorld 7000 session0) = 3
   \<and> finishedAt (waitForServerReady slowWorld 7000 session0) - now slowWorld = 8100"
  by code_simp

text \<open>
  C9. When \<open>onObsidianQuit\<close> runs with \<open>startedVia = tmux\<close> and the keep-alive flag set, it
  has no effect on the outside world at all (so no kill-session command) and the session
  differs only in its two handles, which are cleared. In every other case it performs
  the full close: under tmux it runs kill-session for the named session through the
  tmux binary and reports the outcome (or reports that tmux is missing); otherwise it
  kills the process handle, asks the RPC handle to quit and reports; either way the two
  handles are cleared.
\<close>

theorem onObsidianQuit_dispatch:
  "(startedVia s = Tmux \<and> tmuxKeepAliveOnQuit (settings s) \<longrightarrow>
      onObsidianQuit w s = (s\<lparr>instance' := None, process := None\<rparr>, []))
   \<and> (startedVia s = Tmux \<and> \<not> tmuxKeepAliveOnQuit (settings s) \<and> truthy (tmuxBinary s) \<longrightarrow>
      onObsidianQuit w s =
        (s\<lparr>instance' := None, process := None\<rparr>,
         [ExecFileSync (strOf (tmuxBinary s)) [''kill-session'', ''-t'', sessionName s],
          Notice (if execFileSync w (strOf (tmuxBinary s)) [''kill-session'', ''-t'', sessionName s]
                  then KilledTmuxSession (sessionName s)
                  else FailedToKillTmuxSession (sessionName s))]))
   \<and> (startedVia s = Tmux \<and> \<not> tmuxKeepAliveOnQuit (settings s) \<and> \<not> truthy (tmuxBinary s) \<longrightarrow>
      onObsidianQuit w s =
        (s\<lparr>instance' := None, process := None\<rparr>, [Notice DisconnectedTmuxNotFound]))
   \<and> (startedVia s \<noteq> Tmux \<longrightarrow>
      onObsidianQuit w s =
        (s\<lparr>instance' := None, process := None\<rparr>,
         (case process s of Some p \<Rightarrow> [Kill p] | None \<Rightarrow> [])
         @ (case instance' s of Some h \<Rightarrow> [Quit h] | None \<Rightarrow> [])
         @ [Notice InstanceClosed]))
   \<and> (\<not> (startedVia s = Tmux \<and> tmuxKeepAliveOnQuit (settings s)) \<longrightarrow>
        onObsidianQuit w s = close w s)"
  by (simp add: onObsidianQuit_def close_def disconnect_def Let_def)

theorem onObsidianQuit_dispatch_witness:
  "startedVia keepAliveSession = Tmux \<and> tmuxKeepAliveOnQuit (settings keepAliveSession)
   \<and> instance' keepAliveSession = Some (TcpStream ''127.0.0.1'' 2006)
   \<and> onObsidianQuit readyWorld keepAliveSession
        = (keepAliveSession\<lparr>instance' := None, process := None\<rparr>, [])
   \<and> startedVia tmuxRunningSession = Tmux
   \<and> \<not> tmuxKeepAliveOnQuit (settings tmuxRunningSession)
   \<and> onObsidianQuit readyWorld tmuxRunningSession
        = (tmuxRunningSession\<lparr>instance' := None, process := None\<rparr>,
           [ExecFileSync ''/usr/bin/tmux'' [''kill-session'', ''-t'', ''obsidian''],
            Notice (KilledTmuxSession ''obsidian'')])
   \<and> startedVia runningSession \<noteq> Tmux
   \<and> onObsidianQuit readyWorld runningSession
        = (runningSession\<lparr>instance' := None, process := None\<rparr>,
           [Kill 4242, Quit (TcpStream ''127.0.0.1'' 2006), Notice InstanceClosed])"
proof -
  have k: "startedVia keepAliveSession = Tmux" "tmuxKeepAliveOnQuit (settings keepAliveSession)"
    "instance' keepAliveSession = Some (TcpStream ''127.0.0.1'' 2006)" by code_simp+
  have t: "startedVia tmuxRunningSession = Tmux"
    "\<not> tmuxKeepAliveOnQuit (settings tmuxRunningSession)" "truthy (tmuxBinary tmuxRunningSession)"
    "strOf (tmuxBinary tmuxRunningSession) = ''/usr/bin/tmux''"
    "sessionName tmuxRunningSession = ''obsidian''"
    "execFileSync readyWorld ''/usr/bin/tmux'' [''kill-session'', ''-t'', ''obsidian'']"
    by code_simp+
  have r: "startedVia runningSession \<noteq> Tmux" "process runningSession = Some 4242"
    "instance' runningSession = Some (TcpStream ''127.0.0.1'' 2006)" by code_simp+
  from onObsidianQuit_dispatch[of keepAliveSession readyWorld] k
  have one: "onObsidianQuit readyWorld keepAliveSession
        = (keepAliveSession\<lparr>instance' := None, process := None\<rparr>, [])"
    by blast
  from onObsidianQuit_dispatch[of tmuxRunningSession readyWorld] t(1,2,3)
  have "onObsidianQuit readyWorld tmuxRunningSession =
        (tmuxRunningSession\<lparr>instance' := None, process := None\<rparr>,
         [ExecFileSync (strOf (tmuxBinary tmuxRunningSession))
            [''kill-session'', ''-t'', sessionName tmuxRunningSession],
          Notice (if execFileSync readyWorld (strOf (tmuxBinary tmuxRunningSession))
                       [''kill-session'', ''-t'', sessionName tmuxRunningSession]
                  then KilledTmuxSession (sessionName tmuxRunningSession)
                  else FailedToKillTmuxSession (sessionName tmuxRunningSession))])"
    by blast
  then have two: "onObsidianQuit readyWorld tmuxRunningSession
        = (tmuxRunningSession\<lparr>instance' := None, process := None\<rparr>,
           [ExecFileSync ''/usr/bin/tmux'' [''kill-session'', ''-t'', ''obsidian''],
            Notice (KilledTmuxSession ''obsidian'')])"
    by (simp add: t)
  from onObsidianQuit_dispatch[of runningSession readyWorld] r(1)
  have "onObsidianQuit readyWorld runningSession =
        (runningSession\<lparr>instance' := None, process := None\<rparr>,
         (case process runningSession of Some p \<Rightarrow> [Kill p] | None \<Rightarrow> [])
         @ (case instance' runningSession of Some h \<Rightarrow> [Quit h] | None \<Rightarrow> [])
         @ [Notice InstanceClosed])"
    by blast
  then have three: "onObsidianQuit readyWorld runningSession
        = (runningSession\<lparr>instance' := None, process := None\<rparr>,
           [Kill 4242, Quit (TcpStream ''127.0.0.1'' 2006), Notice InstanceClosed])"
    by (simp add: r)
  from k t(1,2) r(1) one two three show ?thesis by blast
qed

text \<open>
  C10. \<open>getBuffers\<close> never raises: its result is always a list. Without an RPC handle it
  is the empty list and nothing else happens; when the buffer query fails it is the empty
  list after one notice that carries the error message.
\<close>

theorem getBuffers_never_raises:
  "(\<exists>bs. fst (getBuffers w s) = Inr bs)
   \<and> (instance' s = None \<longrightarrow> getBuffers w s = (Inr [], []))
   \<and> (\<forall>h msg. instance' s = Some h \<and> buffers w h = Inl msg \<longrightarrow>
         getBuffers w s = (Inr [], [Notice (UnableToGetBuffers msg)]))
   \<and> (\<forall>h bs. instance' s = Some h \<and> buffers w h = Inr bs \<longrightarrow> getBuffers w s = (Inr bs, []))"
  by (auto simp: getBuffers_def split: option.splits sum.splits)

theorem getBuffers_never_raises_witness:
  "instance' session0 = None \<and> getBuffers quietWorld session0 = (Inr [], [])
   \<and> instance' runningSession = Some (TcpStream ''127.0.0.1'' 2006)
   \<and> buffers quietWorld (TcpStream ''127.0.0.1'' 2006) = Inl ''connection closed''
   \<and> getBuffers quietWorld runningSession
        = (Inr [], [Notice (UnableToGetBuffers ''connection closed'')])"
proof -
  have h1: "instance' session0 = None" by code_simp
  have h2: "instance' runningSession = Some (TcpStream ''127.0.0.1'' 2006)" by code_simp
  have h3: "buffers quietWorld (TcpStream ''127.0.0.1'' 2006) = Inl ''connection closed''"
    by code_simp
  from getBuffers_never_raises[of quietWorld session0]
    getBuffers_never_raises[of quietWorld runningSession] h1 h2 h3
  show ?thesis by blast
qed

end
